theory Spec2Isabelle
  imports Complex_Main
begin

unbundle bit_operations_syntax

section \<open>Python values used by the control core\<close>

text \<open>
  A Python \<open>float\<close> as the sensor layer produces it: either the NaN sentinel
  (\<open>float("nan")\<close>) or a finite value. Finite values are modelled by real numbers, so
  rounding is not part of the model; every comparison with NaN is false, as in Python.
  A Python value that may also be \<open>None\<close> is a \<open>pyfloat option\<close>.
\<close>

datatype pyfloat = NaN | Fin real

fun float_lt :: "pyfloat \<Rightarrow> pyfloat \<Rightarrow> bool" where
  "float_lt (Fin a) (Fin b) = (a < b)"
| "float_lt _ _ = False"

fun float_gt :: "pyfloat \<Rightarrow> pyfloat \<Rightarrow> bool" where
  "float_gt (Fin a) (Fin b) = (a > b)"
| "float_gt _ _ = False"

fun float_ge :: "pyfloat \<Rightarrow> pyfloat \<Rightarrow> bool" where
  "float_ge (Fin a) (Fin b) = (a \<ge> b)"
| "float_ge _ _ = False"

fun float_add :: "pyfloat \<Rightarrow> pyfloat \<Rightarrow> pyfloat" where
  "float_add (Fin a) (Fin b) = Fin (a + b)"
| "float_add _ _ = NaN"

fun float_sub :: "pyfloat \<Rightarrow> pyfloat \<Rightarrow> pyfloat" where
  "float_sub (Fin a) (Fin b) = Fin (a - b)"
| "float_sub _ _ = NaN"

fun float_mul :: "pyfloat \<Rightarrow> pyfloat \<Rightarrow> pyfloat" where
  "float_mul (Fin a) (Fin b) = Fin (a * b)"
| "float_mul _ _ = NaN"

text \<open>
  Division is only used with a divisor that the caller has checked to be positive
  (Python raises \<open>ZeroDivisionError\<close> on a zero divisor).
\<close>

fun float_div :: "pyfloat \<Rightarrow> pyfloat \<Rightarrow> pyfloat" where
  "float_div (Fin a) (Fin b) = Fin (a / b)"
| "float_div _ _ = NaN"

section \<open>lib/config.py\<close>

record config =
  APP_MAX_PRESSURE_KGCM2 :: real
  APP_MAX_TEMP_C :: real
  PRESSURE_V_PIN_MIN :: real
  PRESSURE_V_PIN_MAX :: real
  PRESSURE_P_MIN_KGCM2 :: real
  PRESSURE_P_MAX_KGCM2 :: real
  HEAT_ENABLE :: bool

definition default_config :: config where
  "default_config =
     \<lparr> APP_MAX_PRESSURE_KGCM2 = 1.41,
       APP_MAX_TEMP_C = 125.0,
       PRESSURE_V_PIN_MIN = 0.334,
       PRESSURE_V_PIN_MAX = 2.997,
       PRESSURE_P_MIN_KGCM2 = 0.0,
       PRESSURE_P_MAX_KGCM2 = 2.10,
       HEAT_ENABLE = False \<rparr>"

section \<open>lib/drivers/sensors.py\<close>

text \<open>
  \<open>_map_voltage_to_kgcm2\<close>: volts at the pin to kg per square centimetre, with the ratio clamped to
  \<open>[0, 1]\<close>; NaN when the calibration span is not positive.
\<close>

definition map_voltage_to_kgcm2 :: "config \<Rightarrow> pyfloat \<Rightarrow> pyfloat" where
  "map_voltage_to_kgcm2 cfg v =
     (let span_v = PRESSURE_V_PIN_MAX cfg - PRESSURE_V_PIN_MIN cfg in
      if span_v \<le> 0 then NaN
      else
        let ratio = float_div (float_sub v (Fin (PRESSURE_V_PIN_MIN cfg))) (Fin span_v);
            ratio = (if float_lt ratio (Fin 0) then Fin 0
                     else if float_gt ratio (Fin 1) then Fin 1
                     else ratio);
            span_p = PRESSURE_P_MAX_KGCM2 cfg - PRESSURE_P_MIN_KGCM2 cfg
        in float_add (Fin (PRESSURE_P_MIN_KGCM2 cfg)) (float_mul ratio (Fin span_p)))"

text \<open>
  \<open>read_pressure_kgcm2\<close>. The hardware is a parameter: \<open>real_hw\<close> is
  \<open>hw_esp32.on_real_hw()\<close>, \<open>pressure_kg\<close> the module's desktop dummy value and
  \<open>volts\<close> the result of \<open>hw_esp32.read_pressure_volts()\<close> (\<open>None\<close> when the ADC
  is not available).
\<close>

definition read_pressure_kgcm2 :: "config \<Rightarrow> bool \<Rightarrow> pyfloat \<Rightarrow> pyfloat option \<Rightarrow> pyfloat" where
  "read_pressure_kgcm2 cfg real_hw pressure_kg volts =
     (if \<not> real_hw then pressure_kg
      else case volts of
             None \<Rightarrow> NaN
           | Some v \<Rightarrow> map_voltage_to_kgcm2 cfg v)"

text \<open>
  \<open>_decode_tc_c_from_raw\<close>: the MAX31855 word is a Python \<open>int\<close>, which is unbounded;
  \<open>>>\<close>, \<open>&\<close> and \<open>|\<close> are the bit operations of \<open>int\<close>.
\<close>

definition decode_tc_c_from_raw :: "int \<Rightarrow> pyfloat" where
  "decode_tc_c_from_raw raw =
     (let fault = (raw AND 0x00010000 \<noteq> 0);
          tc14 = drop_bit 18 raw AND 0x3FFF;
          tc14 = (if tc14 AND 0x2000 \<noteq> 0 then tc14 OR 0xC000 else tc14)
      in if fault then NaN else Fin (of_int tc14 * 0.25))"

text \<open>
  \<open>read_tc_c\<close>, with \<open>temp_c\<close> the desktop dummy value and \<open>raw\<close> the result of
  \<open>hw_esp32.read_tc_raw32()\<close>.
\<close>

definition read_tc_c :: "bool \<Rightarrow> pyfloat \<Rightarrow> int option \<Rightarrow> pyfloat" where
  "read_tc_c real_hw temp_c raw =
     (if \<not> real_hw then temp_c
      else case raw of
             None \<Rightarrow> NaN
           | Some r \<Rightarrow> decode_tc_c_from_raw r)"

section \<open>lib/core/brain.py\<close>

text \<open>
  The module state of the brain (\<open>_ssr_on\<close>, \<open>_allow_heat\<close>) together with the value
  handed to \<open>control.set_ssr\<close>.
\<close>

record brain =
  ssr_on :: bool
  allow_heat :: bool
  ctl_ssr_on :: bool

text \<open>
  \<open>step_once\<close>. Its two sensor reads are parameters: \<open>t_c\<close> is the value of
  \<open>sensors.read_tc_c()\<close> and \<open>p_kg\<close> the value of \<open>sensors.read_pressure_kgcm2()\<close>.
  The code tests both against \<open>None\<close>, so both are optional values here.
\<close>

definition step_once :: "config \<Rightarrow> pyfloat option \<Rightarrow> pyfloat option \<Rightarrow> brain" where
  "step_once cfg t_c p_kg =
     (let allow = False;
          allow = (case t_c of
                     None \<Rightarrow> allow
                   | Some t \<Rightarrow>
                       if float_lt (Fin 0) t \<and> float_lt t (Fin (APP_MAX_TEMP_C cfg))
                       then True else allow);
          allow = (case p_kg of
                     None \<Rightarrow> False
                   | Some p \<Rightarrow>
                       if float_ge p (Fin (APP_MAX_PRESSURE_KGCM2 cfg))
                       then False else allow);
          ssr = (if HEAT_ENABLE cfg then allow else False)
      in \<lparr> ssr_on = ssr, allow_heat = allow, ctl_ssr_on = ssr \<rparr>)"

definition get_ssr_state :: "brain \<Rightarrow> bool" where
  "get_ssr_state b = ssr_on b"

definition get_allow_heat :: "brain \<Rightarrow> bool" where
  "get_allow_heat b = allow_heat b"

section \<open>lib/drivers/control.py and lib/core/actuator.py\<close>

definition AUTO_EXTEND_MS :: int where
  "AUTO_EXTEND_MS = 10000"

definition AUTO_WAIT_MS :: int where
  "AUTO_WAIT_MS = 1000"

definition AUTO_RETRACT_MS :: int where
  "AUTO_RETRACT_MS = 10000"

text \<open>
  The actuator module's globals \<open>_state\<close>, \<open>_dir\<close> and \<open>_until_ms\<close>, the control
  driver's \<open>_motor_dir\<close>, and the motor commands issued so far: every call of
  \<open>control.set_motor\<close> appends the pair \<open>(fwd, rev)\<close> it hands to \<open>hw_esp32.write_motor\<close>.
  \<open>_state\<close> is a Python string and \<open>_until_ms\<close> is an unbounded Python \<open>int\<close> or
  \<open>None\<close>.
\<close>

record actuator =
  act_state :: string
  act_dir :: int
  act_until_ms :: "int option"
  ctl_motor_dir :: int
  motor_cmds :: "(bool \<times> bool) list"

text \<open>The state after the modules are loaded, before any call.\<close>

definition initial :: actuator where
  "initial =
     \<lparr> act_state = ''IDLE'', act_dir = 0, act_until_ms = None,
       ctl_motor_dir = 0, motor_cmds = [] \<rparr>"

text \<open>\<open>control.set_motor\<close>: a request for both directions is coerced to stop.\<close>

definition set_motor :: "bool \<Rightarrow> bool \<Rightarrow> actuator \<Rightarrow> actuator" where
  "set_motor fwd0 rev0 s =
     (let both = (fwd0 \<and> rev0);
          fwd1 = (if both then False else fwd0);
          rev1 = (if both then False else rev0)
      in s\<lparr> ctl_motor_dir := (if fwd1 then 1 else if rev1 then - 1 else 0),
             motor_cmds := motor_cmds s @ [(fwd1, rev1)] \<rparr>)"

definition stop_motor :: "actuator \<Rightarrow> actuator" where
  "stop_motor s = set_motor False False s"

definition init :: "actuator \<Rightarrow> actuator" where
  "init s = stop_motor (s\<lparr> act_state := ''IDLE'', act_dir := 0, act_until_ms := None \<rparr>)"

text \<open>
  \<open>_start_phase\<close>. The parameter \<open>now\<close> is the value \<open>hw_esp32.ticks_ms()\<close> returns
  when the deadline is computed; the sum is an unbounded Python integer.
\<close>

definition start_phase :: "string \<Rightarrow> int \<Rightarrow> int \<Rightarrow> int \<Rightarrow> actuator \<Rightarrow> actuator" where
  "start_phase new_state dir_sign duration_ms now s =
     (let s1 = s\<lparr> act_state := new_state \<rparr>;
          s2 = (if dir_sign > 0 then set_motor True False (s1\<lparr> act_dir := 1 \<rparr>)
                else if dir_sign < 0 then set_motor False True (s1\<lparr> act_dir := - 1 \<rparr>)
                else stop_motor (s1\<lparr> act_dir := 0 \<rparr>))
      in s2\<lparr> act_until_ms := Some (now + max duration_ms 0) \<rparr>)"

definition start_auto_cycle :: "int \<Rightarrow> actuator \<Rightarrow> actuator" where
  "start_auto_cycle now s =
     (if act_state s \<noteq> ''IDLE'' then s
      else start_phase ''EXTEND'' 1 AUTO_EXTEND_MS now s)"

definition jog_fwd :: "int \<Rightarrow> actuator \<Rightarrow> actuator" where
  "jog_fwd now s = start_auto_cycle now s"

definition jog_rev :: "int \<Rightarrow> actuator \<Rightarrow> actuator" where
  "jog_rev now s = start_auto_cycle now s"

text \<open>
  \<open>step\<close>. It reads the clock once for the deadline test (\<open>now\<close>); when it starts the
  next phase, \<open>_start_phase\<close> reads the clock again (\<open>now2\<close>). The test
  \<open>now - _until_ms < 0\<close> is a subtraction of Python integers.
\<close>

definition step :: "int \<Rightarrow> int \<Rightarrow> actuator \<Rightarrow> actuator" where
  "step now now2 s =
     (case act_until_ms s of
        None \<Rightarrow> s
      | Some until_ms \<Rightarrow>
          if act_state s = ''IDLE'' then s
          else if now - until_ms < 0 then s
          else if act_state s = ''EXTEND'' then start_phase ''WAIT'' 0 AUTO_WAIT_MS now2 s
          else if act_state s = ''WAIT'' then start_phase ''RETRACT'' (- 1) AUTO_RETRACT_MS now2 s
          else if act_state s = ''RETRACT'' then
            (stop_motor s)\<lparr> act_state := ''IDLE'', act_dir := 0, act_until_ms := None \<rparr>
          else
            (stop_motor s)\<lparr> act_state := ''IDLE'', act_dir := 0, act_until_ms := None \<rparr>)"

definition is_moving :: "actuator \<Rightarrow> bool" where
  "is_moving s = (act_state s \<noteq> ''IDLE'')"

definition get_dir :: "actuator \<Rightarrow> int" where
  "get_dir s = act_dir s"

text \<open>
  The calls the main loop makes on the actuator, each with the clock values it reads,
  and a run of them in order.
\<close>

datatype call = Init | JogFwd int | JogRev int | Step int int

fun do_call :: "actuator \<Rightarrow> call \<Rightarrow> actuator" where
  "do_call s Init = init s"
| "do_call s (JogFwd now) = jog_fwd now s"
| "do_call s (JogRev now) = jog_rev now s"
| "do_call s (Step now now2) = step now now2 s"

definition run :: "call list \<Rightarrow> actuator" where
  "run cs = foldl do_call initial cs"

text \<open>
  The consistency of the three actuator globals: the direction is the one the phase
  stands for, and there is a deadline exactly in the timed phases.
\<close>

definition act_inv :: "actuator \<Rightarrow> bool" where
  "act_inv s =
     ((act_state s = ''IDLE'' \<or> act_state s = ''EXTEND'' \<or>
       act_state s = ''WAIT'' \<or> act_state s = ''RETRACT'') \<and>
      (act_dir s = 1) = (act_state s = ''EXTEND'') \<and>
      (act_dir s = - 1) = (act_state s = ''RETRACT'') \<and>
      (act_dir s = 0) = (act_state s = ''IDLE'' \<or> act_state s = ''WAIT'') \<and>
      (act_until_ms s = None) = (act_state s = ''IDLE''))"

text \<open>
  The comparison the specification describes for the clock: the difference
  \<open>now - deadline\<close> read as a signed integer of the clock's width \<open>w\<close> (in bits) is
  not negative.
\<close>

definition spec_elapsed :: "nat \<Rightarrow> int \<Rightarrow> int \<Rightarrow> bool" where
  "spec_elapsed w deadline now = (0 \<le> signed_take_bit (w - 1) (now - deadline))"

section \<open>Sensor decoding\<close>

lemma fault_mask_bit: "(raw AND (0x00010000::int) \<noteq> 0) = bit raw 16"
  using bit_iff_and_push_bit_not_eq_0 [of raw 16] by simp

text \<open>
  Without a fault the decoder returns a finite value that is never negative: after the
  mask the field is a non-negative Python integer, and or-ing \<open>0xC000\<close> into it keeps
  it so.
\<close>

lemma decode_tc_never_negative:
  assumes "decode_tc_c_from_raw raw = Fin x"
  shows "0 \<le> x"
proof -
  let ?f = "drop_bit 18 raw AND (0x3FFF::int)"
  let ?g = "if ?f AND 0x2000 \<noteq> 0 then ?f OR 0xC000 else ?f"
  have "0 \<le> ?f"
    by simp
  then have "0 \<le> ?g"
    by simp
  then have "(0::real) \<le> of_int ?g * 0.25"
    by (intro mult_nonneg_nonneg) simp_all
  moreover from assms have "x = of_int ?g * 0.25"
    by (simp add: decode_tc_c_from_raw_def Let_def split: if_splits)
  ultimately show ?thesis
    by (simp only:)
qed

text \<open>
  C3. A word whose fault bit is clear and whose 14-bit field has its sign bit set should
  decode to the negative temperature of the sign-extended field; the field \<open>0x3FFF\<close>
  stands for -0.25 degrees. The code or-s \<open>0xC000\<close> into an unbounded integer, which
  sets two more bits instead of extending the sign: the word \<open>0xFFFC0000\<close> decodes to
  \<open>0xFFFF * 0.25 = 16383.75\<close>.
\<close>

theorem decode_tc_sign_bit_not_extended:
  "decode_tc_c_from_raw 0xFFFC0000 = Fin 16383.75"
  by (simp add: decode_tc_c_from_raw_def drop_bit_eq_div)

text \<open>
  C7. A word with bit 16, the composite fault flag, set decodes to NaN whatever its
  other bits are.
\<close>

theorem decode_tc_fault_is_nan:
  "bit raw 16 \<Longrightarrow> decode_tc_c_from_raw raw = NaN"
  by (simp add: decode_tc_c_from_raw_def Let_def fault_mask_bit)

theorem decode_tc_fault_is_nan_witness:
  "bit (0xFFFF0000::int) 16 \<and> decode_tc_c_from_raw 0xFFFF0000 = NaN"
proof -
  have h: "bit (0xFFFF0000::int) 16"
    by (simp add: bit_iff_odd_drop_bit drop_bit_eq_div)
  show ?thesis
    using h decode_tc_fault_is_nan [OF h] by simp
qed

text \<open>
  C8. With a positive calibration span, the mapping sends \<open>v_min\<close> to \<open>p_min\<close> and
  \<open>v_max\<close> to \<open>p_max\<close>, interpolates linearly between them, and saturates at
  \<open>p_min\<close> below \<open>v_min\<close> and at \<open>p_max\<close> above \<open>v_max\<close>.
\<close>

theorem map_voltage_linear_clamped:
  assumes "PRESSURE_V_PIN_MAX cfg - PRESSURE_V_PIN_MIN cfg > 0"
  shows "map_voltage_to_kgcm2 cfg (Fin (PRESSURE_V_PIN_MIN cfg)) = Fin (PRESSURE_P_MIN_KGCM2 cfg) \<and>
         map_voltage_to_kgcm2 cfg (Fin (PRESSURE_V_PIN_MAX cfg)) = Fin (PRESSURE_P_MAX_KGCM2 cfg) \<and>
         (PRESSURE_V_PIN_MIN cfg \<le> v \<and> v \<le> PRESSURE_V_PIN_MAX cfg \<longrightarrow>
            map_voltage_to_kgcm2 cfg (Fin v) =
              Fin (PRESSURE_P_MIN_KGCM2 cfg +
                   (v - PRESSURE_V_PIN_MIN cfg) / (PRESSURE_V_PIN_MAX cfg - PRESSURE_V_PIN_MIN cfg) *
                   (PRESSURE_P_MAX_KGCM2 cfg - PRESSURE_P_MIN_KGCM2 cfg))) \<and>
         (v < PRESSURE_V_PIN_MIN cfg \<longrightarrow>
            map_voltage_to_kgcm2 cfg (Fin v) = Fin (PRESSURE_P_MIN_KGCM2 cfg)) \<and>
         (PRESSURE_V_PIN_MAX cfg < v \<longrightarrow>
            map_voltage_to_kgcm2 cfg (Fin v) = Fin (PRESSURE_P_MAX_KGCM2 cfg))"
proof -
  let ?lo = "PRESSURE_V_PIN_MIN cfg" and ?hi = "PRESSURE_V_PIN_MAX cfg"
  from assms have span: "0 < ?hi - ?lo" .
  have at_min: "map_voltage_to_kgcm2 cfg (Fin ?lo) = Fin (PRESSURE_P_MIN_KGCM2 cfg)"
    using span by (simp add: map_voltage_to_kgcm2_def Let_def)
  have at_max: "map_voltage_to_kgcm2 cfg (Fin ?hi) = Fin (PRESSURE_P_MAX_KGCM2 cfg)"
    using span by (simp add: map_voltage_to_kgcm2_def Let_def)
  have inside: "map_voltage_to_kgcm2 cfg (Fin v) =
       Fin (PRESSURE_P_MIN_KGCM2 cfg + (v - ?lo) / (?hi - ?lo) *
            (PRESSURE_P_MAX_KGCM2 cfg - PRESSURE_P_MIN_KGCM2 cfg))"
    if "?lo \<le> v" "v \<le> ?hi"
  proof -
    from that span have "\<not> (v - ?lo) / (?hi - ?lo) < 0" "\<not> 1 < (v - ?lo) / (?hi - ?lo)"
      by (simp_all add: divide_less_0_iff)
    with span show ?thesis
      by (simp add: map_voltage_to_kgcm2_def Let_def)
  qed
  have below: "map_voltage_to_kgcm2 cfg (Fin v) = Fin (PRESSURE_P_MIN_KGCM2 cfg)" if "v < ?lo"
  proof -
    from that span have "(v - ?lo) / (?hi - ?lo) < 0"
      by (simp add: divide_less_0_iff)
    with span show ?thesis
      by (simp add: map_voltage_to_kgcm2_def Let_def)
  qed
  have above: "map_voltage_to_kgcm2 cfg (Fin v) = Fin (PRESSURE_P_MAX_KGCM2 cfg)" if "?hi < v"
  proof -
    from that span have "1 < (v - ?lo) / (?hi - ?lo)" "\<not> (v - ?lo) / (?hi - ?lo) < 0"
      by (simp_all add: divide_less_0_iff)
    with span show ?thesis
      by (simp add: map_voltage_to_kgcm2_def Let_def)
  qed
  from at_min at_max inside below above show ?thesis
    by blast
qed

theorem map_voltage_linear_clamped_witness:
  "PRESSURE_V_PIN_MAX default_config - PRESSURE_V_PIN_MIN default_config > 0 \<and>
   map_voltage_to_kgcm2 default_config (Fin 0.334) = Fin 0 \<and>
   map_voltage_to_kgcm2 default_config (Fin 2.997) = Fin 2.10 \<and>
   map_voltage_to_kgcm2 default_config (Fin 1.6655) = Fin 1.05 \<and>
   map_voltage_to_kgcm2 default_config (Fin 0.1) = Fin 0 \<and>
   map_voltage_to_kgcm2 default_config (Fin 3.2) = Fin 2.10"
proof -
  have h: "PRESSURE_V_PIN_MAX default_config - PRESSURE_V_PIN_MIN default_config > 0"
    by (simp add: default_config_def)
  show ?thesis
    using h map_voltage_linear_clamped [OF h, of "1.6655"]
      map_voltage_linear_clamped [OF h, of "0.1"]
      map_voltage_linear_clamped [OF h, of "3.2"]
    by (simp add: default_config_def)
qed

section \<open>The heat decision\<close>

text \<open>
  What the pressure gate does deny: a pressure that is \<open>None\<close>, or a finite pressure at
  or above the ceiling.
\<close>

lemma step_once_pressure_none: "\<not> allow_heat (step_once cfg t_c None)"
  by (simp add: step_once_def)

lemma step_once_pressure_high:
  "APP_MAX_PRESSURE_KGCM2 cfg \<le> p \<Longrightarrow> \<not> allow_heat (step_once cfg t_c (Some (Fin p)))"
  by (simp add: step_once_def)

text \<open>
  A NaN pressure is neither \<open>None\<close> nor at or above the ceiling, so the temperature
  gate's decision stands.
\<close>

lemma step_once_pressure_nan:
  "allow_heat (step_once cfg (Some (Fin t)) (Some NaN)) = (0 < t \<and> t < APP_MAX_TEMP_C cfg)"
  by (simp add: step_once_def)

text \<open>
  C1. An invalid pressure reading should force \<open>allow_heat\<close> to false. The sensor layer
  reports an invalid pressure as NaN, never as \<open>None\<close>: on the board, with no ADC value
  (\<open>read_pressure_volts\<close> gives \<open>None\<close>), \<open>read_pressure_kgcm2\<close> returns NaN. With
  that reading and a thermocouple at 80 degrees, \<open>step_once\<close> computes
  \<open>allow_heat = True\<close>, and with \<open>HEAT_ENABLE\<close> set it switches the heater on.
\<close>

theorem step_once_nan_pressure_allows_heat:
  "read_pressure_kgcm2 default_config True (Fin 0.5) None = NaN \<and>
   get_allow_heat
     (step_once default_config (Some (Fin 80))
        (Some (read_pressure_kgcm2 default_config True (Fin 0.5) None))) = True \<and>
   ctl_ssr_on
     (step_once (default_config\<lparr> HEAT_ENABLE := True \<rparr>) (Some (Fin 80))
        (Some (read_pressure_kgcm2 default_config True (Fin 0.5) None))) = True"
  by (simp add: step_once_def read_pressure_kgcm2_def get_allow_heat_def default_config_def)

text \<open>
  C5. For a valid temperature \<open>t\<close> and a pressure the pressure gate lets through,
  \<open>allow_heat\<close> is true exactly when \<open>0 < t < APP_MAX_TEMP_C\<close>; at \<open>t = 0\<close> and at
  \<open>t = APP_MAX_TEMP_C\<close> it is false whatever the pressure reading is.
\<close>

theorem step_once_temperature_window:
  "(p < APP_MAX_PRESSURE_KGCM2 cfg \<longrightarrow>
      get_allow_heat (step_once cfg (Some (Fin t)) (Some (Fin p))) =
        (0 < t \<and> t < APP_MAX_TEMP_C cfg)) \<and>
   \<not> get_allow_heat (step_once cfg (Some (Fin 0)) p_kg) \<and>
   \<not> get_allow_heat (step_once cfg (Some (Fin (APP_MAX_TEMP_C cfg))) p_kg)"
  by (auto simp add: step_once_def get_allow_heat_def split: option.splits)

theorem step_once_temperature_window_witness:
  "(0.5::real) < APP_MAX_PRESSURE_KGCM2 default_config \<and>
   get_allow_heat (step_once default_config (Some (Fin 80)) (Some (Fin 0.5))) \<and>
   \<not> get_allow_heat (step_once default_config (Some (Fin 0)) (Some (Fin 0.5))) \<and>
   \<not> get_allow_heat (step_once default_config (Some (Fin 125)) (Some (Fin 0.5)))"
proof -
  have h: "(0.5::real) < APP_MAX_PRESSURE_KGCM2 default_config"
    by (simp add: default_config_def)
  have m: "APP_MAX_TEMP_C default_config = 125"
    by (simp add: default_config_def)
  show ?thesis
    using h m step_once_temperature_window [of "0.5" default_config 80 "Some (Fin 0.5)"]
    by simp
qed

text \<open>
  C6. The heater command and the recorded SSR state are \<open>allow_heat\<close> and
  \<open>HEAT_ENABLE\<close>; with \<open>HEAT_ENABLE\<close> off the command is off, and the recorded
  \<open>allow_heat\<close> does not depend on \<open>HEAT_ENABLE\<close>.
\<close>

theorem step_once_kill_switch:
  "ctl_ssr_on (step_once cfg t_c p_kg) =
     (get_allow_heat (step_once cfg t_c p_kg) \<and> HEAT_ENABLE cfg) \<and>
   get_ssr_state (step_once cfg t_c p_kg) =
     (get_allow_heat (step_once cfg t_c p_kg) \<and> HEAT_ENABLE cfg) \<and>
   \<not> ctl_ssr_on (step_once (cfg\<lparr> HEAT_ENABLE := False \<rparr>) t_c p_kg) \<and>
   get_allow_heat (step_once (cfg\<lparr> HEAT_ENABLE := e \<rparr>) t_c p_kg) =
     get_allow_heat (step_once cfg t_c p_kg)"
  by (cases t_c; cases p_kg)
    (simp_all add: step_once_def get_allow_heat_def get_ssr_state_def Let_def)

theorem step_once_kill_switch_witness:
  "get_allow_heat (step_once default_config (Some (Fin 80)) (Some (Fin 0.5))) \<and>
   \<not> ctl_ssr_on (step_once default_config (Some (Fin 80)) (Some (Fin 0.5))) \<and>
   ctl_ssr_on (step_once (default_config\<lparr> HEAT_ENABLE := True \<rparr>) (Some (Fin 80)) (Some (Fin 0.5)))"
proof -
  have a: "get_allow_heat (step_once default_config (Some (Fin 80)) (Some (Fin 0.5)))"
    by (simp add: step_once_def get_allow_heat_def default_config_def)
  have e: "\<not> HEAT_ENABLE default_config"
    by (simp add: default_config_def)
  show ?thesis
    using a e
      step_once_kill_switch [of default_config "Some (Fin 80)" "Some (Fin 0.5)" True]
      step_once_kill_switch [of "default_config\<lparr> HEAT_ENABLE := True \<rparr>" "Some (Fin 80)" "Some (Fin 0.5)" True]
    by simp
qed

section \<open>The actuator state machine\<close>

lemmas act_defs =
  step_def start_phase_def set_motor_def stop_motor_def init_def start_auto_cycle_def
  jog_fwd_def jog_rev_def AUTO_EXTEND_MS_def AUTO_WAIT_MS_def AUTO_RETRACT_MS_def

lemma jog_rev_eq_jog_fwd: "jog_rev now s = jog_fwd now s"
  by (simp add: jog_fwd_def jog_rev_def)

text \<open>
  A step whose clock value is below the stored deadline, as integers, changes nothing.
\<close>

lemma step_before_deadline:
  "act_until_ms s = Some u \<Longrightarrow> now < u \<Longrightarrow> step now now2 s = s"
  by (simp add: step_def)

lemma step_idle: "act_state s = ''IDLE'' \<Longrightarrow> step now now2 s = s"
  by (simp add: step_def split: option.splits)

lemma jog_from_idle:
  "act_state s = ''IDLE'' \<Longrightarrow>
   jog_fwd now s =
     s\<lparr> act_state := ''EXTEND'', act_dir := 1, act_until_ms := Some (now + AUTO_EXTEND_MS),
        ctl_motor_dir := 1, motor_cmds := motor_cmds s @ [(True, False)] \<rparr>"
  by (simp add: act_defs)

lemma step_extend_done:
  "act_state s = ''EXTEND'' \<Longrightarrow> act_until_ms s = Some u \<Longrightarrow> u \<le> now \<Longrightarrow>
   step now now2 s =
     s\<lparr> act_state := ''WAIT'', act_dir := 0, act_until_ms := Some (now2 + AUTO_WAIT_MS),
        ctl_motor_dir := 0, motor_cmds := motor_cmds s @ [(False, False)] \<rparr>"
  by (simp add: act_defs)

lemma step_wait_done:
  "act_state s = ''WAIT'' \<Longrightarrow> act_until_ms s = Some u \<Longrightarrow> u \<le> now \<Longrightarrow>
   step now now2 s =
     s\<lparr> act_state := ''RETRACT'', act_dir := - 1,
        act_until_ms := Some (now2 + AUTO_RETRACT_MS),
        ctl_motor_dir := - 1, motor_cmds := motor_cmds s @ [(False, True)] \<rparr>"
  by (simp add: act_defs)

lemma step_retract_done:
  "act_state s = ''RETRACT'' \<Longrightarrow> act_until_ms s = Some u \<Longrightarrow> u \<le> now \<Longrightarrow>
   step now now2 s =
     s\<lparr> act_state := ''IDLE'', act_dir := 0, act_until_ms := None,
        ctl_motor_dir := 0, motor_cmds := motor_cmds s @ [(False, False)] \<rparr>"
  by (simp add: act_defs)

text \<open>
  The deadline is the sum of unbounded integers as well. A phase started less than its
  duration before the tick counter wraps gets a deadline beyond the largest tick, which
  no later clock value reaches: with a 30-bit counter, after a jog at tick
  \<open>2^30 - 5000\<close> every step leaves the actuator extending.
\<close>

lemma step_deadline_beyond_wrap:
  assumes "now < 2 ^ 30"
  shows "step now now2 (run [JogFwd (2 ^ 30 - 5000)]) = run [JogFwd (2 ^ 30 - 5000)]"
proof -
  have "act_until_ms (run [JogFwd (2 ^ 30 - 5000)]) = Some (2 ^ 30 + 5000)"
    by (simp add: run_def initial_def act_defs)
  moreover from assms have "now < 2 ^ 30 + 5000"
    by simp
  ultimately show ?thesis
    by (rule step_before_deadline)
qed

text \<open>
  C2. The deadline test should report a deadline as reached when the clock has wrapped
  around after it. It subtracts unbounded Python integers, so the difference never wraps:
  with a 30-bit tick counter, an extend phase started at tick \<open>2^30 - 10005\<close> has the
  deadline \<open>2^30 - 5\<close>; at tick 10 after the wrap, 15 ms after the deadline, the signed
  30-bit difference is not negative, yet \<open>step\<close> leaves the actuator extending.
\<close>

theorem step_deadline_test_ignores_wraparound:
  "act_state (run [JogFwd (2 ^ 30 - 10005)]) = ''EXTEND'' \<and>
   act_until_ms (run [JogFwd (2 ^ 30 - 10005)]) = Some (2 ^ 30 - 5) \<and>
   spec_elapsed 30 (2 ^ 30 - 5) 10 \<and>
   step 10 10 (run [JogFwd (2 ^ 30 - 10005)]) = run [JogFwd (2 ^ 30 - 10005)]"
  by (simp add: run_def initial_def act_defs spec_elapsed_def
      signed_take_bit_eq_take_bit_shift take_bit_eq_mod)

text \<open>
  When the clock values of the steps have reached the stored deadlines as integers,
  which needs a cycle that the tick counter does not wrap in, a jog trigger from any
  idle state visits EXTEND, WAIT, RETRACT and IDLE in this order, with the directions
  +1, 0, -1 and 0 and the motor commands forward, stop, reverse and stop; a step before
  the deadline of a phase leaves the state as it is, and so does every step once the
  machine is idle again.
\<close>

lemma full_cycle_without_wrap:
  assumes idle: "act_state s0 = ''IDLE''"
    and trig: "s1 = jog_fwd t0 s0 \<or> s1 = jog_rev t0 s0"
    and d1: "t0 + AUTO_EXTEND_MS \<le> n1" and st2: "s2 = step n1 m1 s1"
    and d2: "m1 + AUTO_WAIT_MS \<le> n2" and st3: "s3 = step n2 m2 s2"
    and d3: "m2 + AUTO_RETRACT_MS \<le> n3" and st4: "s4 = step n3 m3 s3"
  shows "(act_state s1, act_dir s1, act_until_ms s1) =
           (''EXTEND'', 1, Some (t0 + AUTO_EXTEND_MS)) \<and>
         (act_state s2, act_dir s2, act_until_ms s2) =
           (''WAIT'', 0, Some (m1 + AUTO_WAIT_MS)) \<and>
         (act_state s3, act_dir s3, act_until_ms s3) =
           (''RETRACT'', - 1, Some (m2 + AUTO_RETRACT_MS)) \<and>
         (act_state s4, act_dir s4, act_until_ms s4) = (''IDLE'', 0, None) \<and>
         motor_cmds s4 =
           motor_cmds s0 @ [(True, False), (False, False), (False, True), (False, False)] \<and>
         (\<forall>n m. n < t0 + AUTO_EXTEND_MS \<longrightarrow> step n m s1 = s1) \<and>
         (\<forall>n m. n < m1 + AUTO_WAIT_MS \<longrightarrow> step n m s2 = s2) \<and>
         (\<forall>n m. n < m2 + AUTO_RETRACT_MS \<longrightarrow> step n m s3 = s3) \<and>
         (\<forall>n m. step n m s4 = s4)"
proof -
  from trig have s1: "s1 = jog_fwd t0 s0"
    by (simp add: jog_rev_eq_jog_fwd)
  have p1: "act_state s1 = ''EXTEND''" "act_dir s1 = 1"
    "act_until_ms s1 = Some (t0 + AUTO_EXTEND_MS)"
    "motor_cmds s1 = motor_cmds s0 @ [(True, False)]"
    by (simp_all add: s1 jog_from_idle [OF idle])
  have p2: "act_state s2 = ''WAIT''" "act_dir s2 = 0"
    "act_until_ms s2 = Some (m1 + AUTO_WAIT_MS)"
    "motor_cmds s2 = motor_cmds s1 @ [(False, False)]"
    by (simp_all add: st2 step_extend_done [OF p1(1) p1(3) d1])
  have p3: "act_state s3 = ''RETRACT''" "act_dir s3 = - 1"
    "act_until_ms s3 = Some (m2 + AUTO_RETRACT_MS)"
    "motor_cmds s3 = motor_cmds s2 @ [(False, True)]"
    by (simp_all add: st3 step_wait_done [OF p2(1) p2(3) d2])
  have p4: "act_state s4 = ''IDLE''" "act_dir s4 = 0" "act_until_ms s4 = None"
    "motor_cmds s4 = motor_cmds s3 @ [(False, False)]"
    by (simp_all add: st4 step_retract_done [OF p3(1) p3(3) d3])
  have q1: "\<forall>n m. n < t0 + AUTO_EXTEND_MS \<longrightarrow> step n m s1 = s1"
    using step_before_deadline [OF p1(3)] by blast
  have q2: "\<forall>n m. n < m1 + AUTO_WAIT_MS \<longrightarrow> step n m s2 = s2"
    using step_before_deadline [OF p2(3)] by blast
  have q3: "\<forall>n m. n < m2 + AUTO_RETRACT_MS \<longrightarrow> step n m s3 = s3"
    using step_before_deadline [OF p3(3)] by blast
  have q4: "\<forall>n m. step n m s4 = s4"
    using step_idle [OF p4(1)] by blast
  have cmds: "motor_cmds s4 =
      motor_cmds s0 @ [(True, False), (False, False), (False, True), (False, False)]"
    by (simp add: p1(4) p2(4) p3(4) p4(4))
  from p1(1-3) p2(1-3) p3(1-3) p4(1-3) cmds q1 q2 q3 q4 show ?thesis
    by simp
qed

lemma full_cycle_without_wrap_example:
  "map (\<lambda>s. (act_state s, act_dir s, act_until_ms s))
     [run [JogFwd 0],
      run [JogFwd 0, Step 10000 10001],
      run [JogFwd 0, Step 10000 10001, Step 11001 11002],
      run [JogFwd 0, Step 10000 10001, Step 11001 11002, Step 21002 21003]] =
     [(''EXTEND'', 1, Some 10000), (''WAIT'', 0, Some 11001),
      (''RETRACT'', - 1, Some 21002), (''IDLE'', 0, None)] \<and>
   step 9999 9999 (run [JogFwd 0]) = run [JogFwd 0]"
proof -
  have h0: "act_state initial = ''IDLE''"
    by (simp add: initial_def)
  have h1: "(0::int) + AUTO_EXTEND_MS \<le> 10000"
    and h2: "(10001::int) + AUTO_WAIT_MS \<le> 11001"
    and h3: "(11002::int) + AUTO_RETRACT_MS \<le> 21002"
    by (simp_all add: AUTO_EXTEND_MS_def AUTO_WAIT_MS_def AUTO_RETRACT_MS_def)
  note c = full_cycle_without_wrap [OF h0 disjI1 [OF refl] h1 refl h2 refl h3 refl, of 21003]
  have k: "(9999::int) < 0 + AUTO_EXTEND_MS"
    by (simp add: AUTO_EXTEND_MS_def)
  from c k have "step 9999 9999 (jog_fwd 0 initial) = jog_fwd 0 initial"
    by blast
  with c show ?thesis
    by (simp add: run_def AUTO_EXTEND_MS_def AUTO_WAIT_MS_def AUTO_RETRACT_MS_def)
qed

text \<open>
  C4. A jog trigger from the idle state, followed by steps with the clock advanced past
  the deadline of each phase, should visit EXTEND, WAIT, RETRACT and IDLE in order. With
  a 30-bit tick counter and a jog at tick \<open>2^30 - 5000\<close>, the extend phase ends at
  tick 5000 after the wrap; the stored deadline is \<open>2^30 + 5000\<close>. The steps at the
  ticks 5000, 6000, 16000 and 26000 are all at or after the deadline in the signed 30-bit
  difference, yet the actuator is still in EXTEND with direction +1, and forward is the
  only motor command issued.
\<close>

theorem full_cycle_stuck_across_wraparound:
  "act_state initial = ''IDLE'' \<and>
   act_until_ms (run [JogFwd (2 ^ 30 - 5000)]) = Some (2 ^ 30 + 5000) \<and>
   spec_elapsed 30 (2 ^ 30 + 5000) 5000 \<and>
   spec_elapsed 30 (2 ^ 30 + 5000) 6000 \<and>
   spec_elapsed 30 (2 ^ 30 + 5000) 16000 \<and>
   spec_elapsed 30 (2 ^ 30 + 5000) 26000 \<and>
   act_state (run [JogFwd (2 ^ 30 - 5000), Step 5000 5000, Step 6000 6000,
                   Step 16000 16000, Step 26000 26000]) = ''EXTEND'' \<and>
   act_dir (run [JogFwd (2 ^ 30 - 5000), Step 5000 5000, Step 6000 6000,
                 Step 16000 16000, Step 26000 26000]) = 1 \<and>
   motor_cmds (run [JogFwd (2 ^ 30 - 5000), Step 5000 5000, Step 6000 6000,
                    Step 16000 16000, Step 26000 26000]) = [(True, False)]"
  by (simp add: run_def initial_def act_defs spec_elapsed_def
      signed_take_bit_eq_take_bit_shift take_bit_eq_mod)

text \<open>
  C9. While the actuator is not idle, \<open>jog_fwd\<close> and \<open>jog_rev\<close> return the state they
  were given: phase, direction and deadline are unchanged and no motor command is
  added.
\<close>

theorem jog_dropped_while_moving:
  "act_state s \<noteq> ''IDLE'' \<Longrightarrow> jog_fwd now s = s \<and> jog_rev now s = s"
  by (simp add: jog_fwd_def jog_rev_def start_auto_cycle_def)

theorem jog_dropped_while_moving_witness:
  "act_state (run [JogFwd 0]) \<noteq> ''IDLE'' \<and>
   jog_fwd 50 (run [JogFwd 0]) = run [JogFwd 0] \<and>
   jog_rev 50 (run [JogFwd 0]) = run [JogFwd 0]"
proof -
  have h: "act_state (run [JogFwd 0]) \<noteq> ''IDLE''"
    by (simp add: run_def initial_def act_defs)
  show ?thesis
    using h jog_dropped_while_moving [OF h, of 50] by simp
qed

text \<open>
  Every call keeps the consistency predicate \<open>act_inv\<close>, and the initial state and
  the state after \<open>init\<close> satisfy it.
\<close>

lemma act_inv_initial: "act_inv initial"
  by (simp add: act_inv_def initial_def)

lemma act_inv_init: "act_inv (init s)"
  by (simp add: act_inv_def act_defs)

lemma act_inv_jog_fwd: "act_inv s \<Longrightarrow> act_inv (jog_fwd now s)"
  by (auto simp add: act_inv_def act_defs)

lemma act_inv_step: "act_inv s \<Longrightarrow> act_inv (step now now2 s)"
  by (auto simp add: act_inv_def act_defs split: option.splits)

lemma act_inv_do_call: "act_inv s \<Longrightarrow> act_inv (do_call s c)"
  by (cases c) (simp_all add: act_inv_init act_inv_jog_fwd act_inv_step jog_rev_eq_jog_fwd)

lemma act_inv_foldl: "act_inv s \<Longrightarrow> act_inv (foldl do_call s cs)"
  by (induction cs arbitrary: s) (simp_all add: act_inv_do_call)

text \<open>
  C10. After any sequence of calls of \<open>init\<close>, \<open>jog_fwd\<close>, \<open>jog_rev\<close> and \<open>step\<close>
  from the initial state, with any clock values, the direction is +1 exactly in EXTEND,
  -1 exactly in RETRACT and 0 exactly in IDLE and WAIT, and the deadline is \<open>None\<close>
  exactly in IDLE.
\<close>

theorem actuator_invariant: "act_inv (run cs)"
  unfolding run_def by (rule act_inv_foldl [OF act_inv_initial])

theorem actuator_invariant_witness:
  "act_inv (run [JogFwd 0, Step 10000 10001, JogRev 10500, Step 11001 11002]) \<and>
   act_state (run [JogFwd 0, Step 10000 10001, JogRev 10500, Step 11001 11002]) = ''RETRACT''"
proof -
  have "act_state (run [JogFwd 0, Step 10000 10001, JogRev 10500, Step 11001 11002]) = ''RETRACT''"
    by (simp add: run_def initial_def act_defs)
  with actuator_invariant [of "[JogFwd 0, Step 10000 10001, JogRev 10500, Step 11001 11002]"]
  show ?thesis
    by simp
qed

end
